theory Spec2Isabelle
  imports Complex_Main
begin

section \<open>Request bodies\<close>

text \<open>
  The API parses a JSON body and destructures eight properties from it
  (\<^verbatim>\<open>const { title, author, isbn, ... } = req.body\<close>). A property is absent
  (\<^verbatim>\<open>undefined\<close> after destructuring), \<^verbatim>\<open>null\<close>, or a value. The model
  is typed as the Book JSON shape is: text properties carry strings, \<^verbatim>\<open>year_published\<close>
  and \<^verbatim>\<open>rating\<close> carry integers, \<^verbatim>\<open>status\<close> carries one of the three
  literals of the \<^verbatim>\<open>ENUM\<close> column. Values that the storage engine would have to
  convert between types are outside the model.
\<close>

datatype 'a property = Absent | Null | Val 'a

datatype status = Read | Reading | ToRead

record body =
  body_title :: "string property"
  body_author :: "string property"
  body_isbn :: "string property"
  body_genre :: "string property"
  body_year_published :: "int property"
  body_status :: "status property"
  body_rating :: "int property"
  body_notes :: "string property"

text \<open>
  JavaScript truthiness of a text property, as \<^verbatim>\<open>!title\<close> tests it:
  \<^verbatim>\<open>undefined\<close>, \<^verbatim>\<open>null\<close> and the empty string are falsy.
\<close>

definition truthy :: "string property \<Rightarrow> bool" where
  "truthy f = (case f of Absent \<Rightarrow> False | Null \<Rightarrow> False | Val s \<Rightarrow> s \<noteq> [])"

text \<open>
  Binding a placeholder \<^verbatim>\<open>?\<close> of \<^verbatim>\<open>db.query\<close>: both \<^verbatim>\<open>undefined\<close> and
  \<^verbatim>\<open>null\<close> are sent as SQL \<^verbatim>\<open>NULL\<close>.
\<close>

definition bind :: "'a property \<Rightarrow> 'a option" where
  "bind f = (case f of Absent \<Rightarrow> None | Null \<Rightarrow> None | Val v \<Rightarrow> Some v)"

section \<open>Storage: the books table\<close>

text \<open>
  The routes talk to storage through \<^verbatim>\<open>db.query\<close> only. The model gives each SQL
  statement of the routes its meaning on the table that \<^verbatim>\<open>CREATE TABLE books\<close>
  declares, with the constraints of that declaration enforced as errors (strict mode).
  Storage is reachable: an error comes from a constraint, never from a lost connection.
  The identifier in a URL is a number.
\<close>

text \<open>
  One row of \<^verbatim>\<open>books\<close> as \<^verbatim>\<open>CREATE TABLE\<close> declares it. \<^verbatim>\<open>title\<close> and
  \<^verbatim>\<open>author\<close> are \<^verbatim>\<open>NOT NULL\<close>; every other data column is nullable,
  \<^verbatim>\<open>status\<close> included. Timestamps are natural numbers.
\<close>

record book =
  book_id :: nat
  title :: string
  author :: string
  isbn :: "string option"
  genre :: "string option"
  year_published :: "int option"
  status :: "status option"
  rating :: "int option"
  "notes" :: "string option"
  created_at :: nat
  updated_at :: nat

text \<open>
  The values of one statement. In an \<^verbatim>\<open>INSERT\<close> a column is either named in the
  column list (\<open>Given v\<close>, where \<open>v\<close> may be \<^verbatim>\<open>NULL\<close>) or left out
  (\<open>Omitted\<close>); only a column that is left out receives its \<^verbatim>\<open>DEFAULT\<close>.
\<close>

datatype 'a column = Omitted | Given "'a option"

record vals =
  v_title :: "string option"
  v_author :: "string option"
  v_isbn :: "string option"
  v_genre :: "string option"
  v_year_published :: "int option"
  v_status :: "status column"
  v_rating :: "int option"
  v_notes :: "string option"

datatype stmt =
    SelectById nat
  | Insert vals
  | Update vals nat
  | SelectStats

text \<open>
  The database: the rows in insertion order, the \<^verbatim>\<open>AUTO_INCREMENT\<close> counter, and
  the statements received so far (latest last), which makes "before any storage call"
  a property of the state.
\<close>

record db =
  rows :: "book list"
  auto_increment :: nat
  issued :: "stmt list"

datatype storage_error =
    ColumnCannotBeNull
  | DataTooLong
  | OutOfRange
  | DuplicateEntry
  | CheckConstraintViolated

text \<open>\<^verbatim>\<open>status ENUM(...) DEFAULT 'to-read'\<close>: the stored value of the status column.\<close>

definition status_default :: "status option" where
  "status_default = Some ToRead"

definition stored_status :: "status column \<Rightarrow> status option" where
  "stored_status c = (case c of Omitted \<Rightarrow> status_default | Given v \<Rightarrow> v)"

text \<open>\<^verbatim>\<open>VARCHAR(n)\<close> in strict mode: a longer string is rejected.\<close>

definition fits :: "nat \<Rightarrow> string option \<Rightarrow> bool" where
  "fits n v = (case v of None \<Rightarrow> True | Some s \<Rightarrow> length s \<le> n)"

text \<open>\<^verbatim>\<open>INT\<close>: a signed 32-bit integer.\<close>

definition in_int :: "int option \<Rightarrow> bool" where
  "in_int v = (case v of None \<Rightarrow> True | Some n \<Rightarrow> - 2147483648 \<le> n \<and> n \<le> 2147483647)"

text \<open>\<^verbatim>\<open>CHECK (rating >= 1 AND rating <= 5)\<close>: \<^verbatim>\<open>NULL\<close> passes a check.\<close>

definition rating_check :: "int option \<Rightarrow> bool" where
  "rating_check v = (case v of None \<Rightarrow> True | Some n \<Rightarrow> 1 \<le> n \<and> n \<le> 5)"

text \<open>\<^verbatim>\<open>isbn VARCHAR(20) UNIQUE\<close>: \<^verbatim>\<open>NULL\<close> never collides.\<close>

definition isbn_unique :: "book list \<Rightarrow> string option \<Rightarrow> bool" where
  "isbn_unique bs v = (case v of None \<Rightarrow> True | Some s \<Rightarrow> Some s \<notin> set (map isbn bs))"

text \<open>The checks of one row's values, in the order the columns are declared.\<close>

definition constraint_error :: "book list \<Rightarrow> vals \<Rightarrow> storage_error option" where
  "constraint_error others v =
    (if v_title v = None \<or> v_author v = None then Some ColumnCannotBeNull
     else if \<not> fits 255 (v_title v) \<or> \<not> fits 255 (v_author v) \<or> \<not> fits 20 (v_isbn v)
             \<or> \<not> fits 100 (v_genre v) then Some DataTooLong
     else if \<not> in_int (v_year_published v) \<or> \<not> in_int (v_rating v) then Some OutOfRange
     else if \<not> rating_check (v_rating v) then Some CheckConstraintViolated
     else if \<not> isbn_unique others (v_isbn v) then Some DuplicateEntry
     else None)"

definition text_of :: "string option \<Rightarrow> string" where
  "text_of v = (case v of None \<Rightarrow> [] | Some s \<Rightarrow> s)"

text \<open>
  \<^verbatim>\<open>INSERT INTO books (...) VALUES (...)\<close>: the new row takes the counter as its id
  and the current time for both timestamps. The result is the \<^verbatim>\<open>insertId\<close>, or the
  error that \<^verbatim>\<open>db.query\<close> throws; a rejected statement stores nothing.
\<close>

definition new_row :: "nat \<Rightarrow> nat \<Rightarrow> vals \<Rightarrow> book" where
  "new_row now i v =
    \<lparr> book_id = i, title = text_of (v_title v), author = text_of (v_author v),
      isbn = v_isbn v, genre = v_genre v, year_published = v_year_published v,
      status = stored_status (v_status v), rating = v_rating v, notes = v_notes v,
      created_at = now, updated_at = now \<rparr>"

definition sql_insert :: "nat \<Rightarrow> vals \<Rightarrow> db \<Rightarrow> (storage_error + nat) \<times> db" where
  "sql_insert now v d =
    (let d1 = d\<lparr> issued := issued d @ [Insert v] \<rparr>; i = auto_increment d in
     case constraint_error (rows d) v of
       Some e \<Rightarrow> (Inl e, d1)
     | None \<Rightarrow>
         if i \<in> set (map book_id (rows d)) then (Inl DuplicateEntry, d1)
         else (Inr i, d1\<lparr> rows := rows d @ [new_row now i v], auto_increment := Suc i \<rparr>))"

text \<open>\<^verbatim>\<open>SELECT * FROM books WHERE id = ?\<close>\<close>

definition sql_select_by_id :: "nat \<Rightarrow> db \<Rightarrow> book list \<times> db" where
  "sql_select_by_id i d =
    (filter (\<lambda>b. book_id b = i) (rows d), d\<lparr> issued := issued d @ [SelectById i] \<rparr>)"

text \<open>
  \<^verbatim>\<open>UPDATE books SET title = ?, ..., notes = ? WHERE id = ?\<close>: the eight columns of
  every matching row are replaced; \<^verbatim>\<open>updated_at\<close> is refreshed when the row's values
  change (\<^verbatim>\<open>ON UPDATE CURRENT_TIMESTAMP\<close>). The constraints are checked on the rows
  that match, so a statement that matches no row succeeds with \<^verbatim>\<open>affectedRows\<close> 0.
  \<^verbatim>\<open>affectedRows\<close> counts the matching rows.
\<close>

definition set_columns :: "nat \<Rightarrow> vals \<Rightarrow> book \<Rightarrow> book" where
  "set_columns now v b =
    (let b1 = b\<lparr> title := text_of (v_title v), author := text_of (v_author v),
                 isbn := v_isbn v, genre := v_genre v,
                 year_published := v_year_published v,
                 status := stored_status (v_status v), rating := v_rating v,
                 notes := v_notes v \<rparr>
     in b1\<lparr> updated_at := (if b1 = b then updated_at b else now) \<rparr>)"

definition sql_update :: "nat \<Rightarrow> vals \<Rightarrow> nat \<Rightarrow> db \<Rightarrow> (storage_error + nat) \<times> db" where
  "sql_update now v i d =
    (let d1 = d\<lparr> issued := issued d @ [Update v i] \<rparr>;
         matching = filter (\<lambda>b. book_id b = i) (rows d);
         others = filter (\<lambda>b. book_id b \<noteq> i) (rows d) in
     if matching = [] then (Inr 0, d1)
     else case constraint_error others v of
       Some e \<Rightarrow> (Inl e, d1)
     | None \<Rightarrow>
         (Inr (length matching),
          d1\<lparr> rows := map (\<lambda>b. if book_id b = i then set_columns now v b else b) (rows d) \<rparr>))"

subsection \<open>Numbers as text\<close>

text \<open>The decimal digits of a natural number, as JavaScript and the driver write them.\<close>

definition digit :: "nat \<Rightarrow> char" where
  "digit n = ''0123456789'' ! (n mod 10)"

fun show_nat :: "nat \<Rightarrow> string" where
  "show_nat n = (if n < 10 then [digit n] else show_nat (n div 10) @ [digit n])"

declare show_nat.simps [simp del]

subsection \<open>Aggregates\<close>

text \<open>
  \<^verbatim>\<open>COUNT(expr)\<close> counts the rows where the expression is not \<^verbatim>\<open>NULL\<close>;
  \<^verbatim>\<open>CASE WHEN c THEN 1 END\<close> is \<^verbatim>\<open>NULL\<close> unless the condition is true, and a
  comparison with a \<^verbatim>\<open>NULL\<close> status is not true; \<^verbatim>\<open>AVG\<close> skips
  \<^verbatim>\<open>NULL\<close> and is \<^verbatim>\<open>NULL\<close> over no values.
\<close>

definition sql_count :: "'a option list \<Rightarrow> nat" where
  "sql_count xs = length (filter (\<lambda>x. x \<noteq> None) xs)"

definition case_when_1 :: "bool \<Rightarrow> int option" where
  "case_when_1 c = (if c then Some 1 else None)"

definition sql_eq :: "'a option \<Rightarrow> 'a \<Rightarrow> bool" where
  "sql_eq x y = (case x of None \<Rightarrow> False | Some z \<Rightarrow> z = y)"

fun non_null :: "'a option list \<Rightarrow> 'a list" where
  "non_null [] = []"
| "non_null (None # xs) = non_null xs"
| "non_null (Some x # xs) = x # non_null xs"

text \<open>
  \<^verbatim>\<open>AVG\<close> over an \<^verbatim>\<open>INT\<close> column is a \<^verbatim>\<open>DECIMAL\<close> with four digits
  after the point: the quotient of the sum by the count, rounded half away from zero.
  The model keeps such a decimal as its number of ten-thousandths.
\<close>

definition round4 :: "rat \<Rightarrow> int" where
  "round4 x =
    (if 0 \<le> x then \<lfloor>x * 10000 + 1 / 2\<rfloor> else - \<lfloor>- x * 10000 + 1 / 2\<rfloor>)"

definition sql_avg :: "int option list \<Rightarrow> int option" where
  "sql_avg xs =
    (let vs = non_null xs in
     if vs = [] then None
     else Some (round4 (of_int (sum_list vs) / of_nat (length vs))))"

text \<open>
  The driver hands a \<^verbatim>\<open>DECIMAL\<close> to the route as a string: sign, integer part,
  point, four digits. The counts arrive as numbers.
\<close>

definition decimal4_text :: "int \<Rightarrow> string" where
  "decimal4_text n =
    (let a = nat \<bar>n\<bar> in
     (if n < 0 then ''-'' else []) @ show_nat (a div 10000) @ ''.''
       @ [digit (a div 1000), digit (a div 100), digit (a div 10), digit a])"

record stats =
  total_books :: nat
  books_read :: nat
  books_reading :: nat
  books_to_read :: nat
  average_rating :: "string option"

definition sql_select_stats :: "db \<Rightarrow> stats list \<times> db" where
  "sql_select_stats d =
    ([\<lparr> total_books = length (rows d),
        books_read = sql_count (map (\<lambda>b. case_when_1 (sql_eq (status b) Read)) (rows d)),
        books_reading = sql_count (map (\<lambda>b. case_when_1 (sql_eq (status b) Reading)) (rows d)),
        books_to_read = sql_count (map (\<lambda>b. case_when_1 (sql_eq (status b) ToRead)) (rows d)),
        average_rating = map_option decimal4_text (sql_avg (map rating (rows d))) \<rparr>],
     d\<lparr> issued := issued d @ [SelectStats] \<rparr>)"

section \<open>API service: the routes of books.js\<close>

datatype payload =
    Book book
  | Stats stats
  | Error string
  | StorageError storage_error
  | Undefined

record response =
  res_status :: nat
  res_json :: payload

text \<open>\<^verbatim>\<open>rows[0]\<close>, which is \<^verbatim>\<open>undefined\<close> on an empty result.\<close>

definition first_row :: "book list \<Rightarrow> payload" where
  "first_row rs = (case rs of [] \<Rightarrow> Undefined | b # _ \<Rightarrow> Book b)"

text \<open>
  The parameter array of both statements names all eight columns, so every one is
  \<open>Given\<close>, with \<^verbatim>\<open>NULL\<close> where the body has no value.
\<close>

definition params :: "body \<Rightarrow> vals" where
  "params req =
    \<lparr> v_title = bind (body_title req), v_author = bind (body_author req),
      v_isbn = bind (body_isbn req), v_genre = bind (body_genre req),
      v_year_published = bind (body_year_published req),
      v_status = Given (bind (body_status req)),
      v_rating = bind (body_rating req), v_notes = bind (body_notes req) \<rparr>"

text \<open>\<^verbatim>\<open>router.post('/')\<close>; \<open>now\<close> is the storage clock when the request runs.\<close>

definition post_book :: "nat \<Rightarrow> body \<Rightarrow> db \<Rightarrow> response \<times> db" where
  "post_book now req d =
    (if \<not> truthy (body_title req) \<or> \<not> truthy (body_author req)
     then (\<lparr> res_status = 400, res_json = Error ''Title and author are required'' \<rparr>, d)
     else case sql_insert now (params req) d of
       (Inl e, d1) \<Rightarrow> (\<lparr> res_status = 500, res_json = StorageError e \<rparr>, d1)
     | (Inr insertId, d1) \<Rightarrow>
         (case sql_select_by_id insertId d1 of
            (newBook, d2) \<Rightarrow> (\<lparr> res_status = 201, res_json = first_row newBook \<rparr>, d2)))"

text \<open>\<^verbatim>\<open>router.put('/:id')\<close>\<close>

definition put_book :: "nat \<Rightarrow> nat \<Rightarrow> body \<Rightarrow> db \<Rightarrow> response \<times> db" where
  "put_book now i req d =
    (case sql_update now (params req) i d of
       (Inl e, d1) \<Rightarrow> (\<lparr> res_status = 500, res_json = StorageError e \<rparr>, d1)
     | (Inr affectedRows, d1) \<Rightarrow>
         if affectedRows = 0
         then (\<lparr> res_status = 404, res_json = Error ''Book not found'' \<rparr>, d1)
         else (case sql_select_by_id i d1 of
                 (updatedBook, d2) \<Rightarrow>
                   (\<lparr> res_status = 200, res_json = first_row updatedBook \<rparr>, d2)))"

text \<open>\<^verbatim>\<open>router.get('/stats/overview')\<close>\<close>

definition get_stats_overview :: "db \<Rightarrow> response \<times> db" where
  "get_stats_overview d =
    (case sql_select_stats d of
       (st, d1) \<Rightarrow>
         (\<lparr> res_status = 200,
            res_json = (case st of [] \<Rightarrow> Undefined | s # _ \<Rightarrow> Stats s) \<rparr>, d1))"

section \<open>Client application: script.js\<close>

subsection \<open>State and network outcomes\<close>

text \<open>
  \<^verbatim>\<open>response.json()\<close> of the list endpoint yields the array of books on success and
  the object \<^verbatim>\<open>{ error: message }\<close> on a 500 response. The variable
  \<^verbatim>\<open>books\<close> holds whatever was parsed last; \<^verbatim>\<open>filteredBooks\<close> is always an
  array. The two form controls read by the handlers are part of the state.
\<close>

datatype json = BookArray "book list" | ErrorObject string

text \<open>
  \<^verbatim>\<open>await fetch(...)\<close> either rejects (no response at all) or resolves with
  \<^verbatim>\<open>response.ok\<close> and a body, \<open>None\<close> when the body is not JSON.
\<close>

datatype fetch_result = NetworkFailure | Response bool "json option"

record client =
  books :: json
  filteredBooks :: "book list"
  searchInput :: string
  filterStatus :: string

definition initial_client :: client where
  "initial_client =
    \<lparr> books = BookArray [], filteredBooks = [], searchInput = [], filterStatus = [] \<rparr>"

datatype js_error = TypeError

subsection \<open>Strings\<close>

text \<open>
  A \<open>char\<close> of a text is one of its code units, and the type holds the code units
  below 256, the characters of Latin-1. On such text \<^verbatim>\<open>toLowerCase\<close> maps each
  capital letter to its small form, unit by unit: A to Z, and the accented capitals
  \<open>0xC0\<close> to \<open>0xDE\<close> without the multiplication sign \<open>0xD7\<close>, whose small
  forms lie 32 above. Every other unit is kept, and the length never changes.
\<close>

definition lower_table :: "(char \<times> char) list" where
  "lower_table =
    zip (''ABCDEFGHIJKLMNOPQRSTUVWXYZ'' @
         [CHR 0xC0, CHR 0xC1, CHR 0xC2, CHR 0xC3, CHR 0xC4, CHR 0xC5,
          CHR 0xC6, CHR 0xC7, CHR 0xC8, CHR 0xC9, CHR 0xCA, CHR 0xCB,
          CHR 0xCC, CHR 0xCD, CHR 0xCE, CHR 0xCF, CHR 0xD0, CHR 0xD1,
          CHR 0xD2, CHR 0xD3, CHR 0xD4, CHR 0xD5, CHR 0xD6, CHR 0xD8,
          CHR 0xD9, CHR 0xDA, CHR 0xDB, CHR 0xDC, CHR 0xDD, CHR 0xDE])
        (''abcdefghijklmnopqrstuvwxyz'' @
         [CHR 0xE0, CHR 0xE1, CHR 0xE2, CHR 0xE3, CHR 0xE4, CHR 0xE5,
          CHR 0xE6, CHR 0xE7, CHR 0xE8, CHR 0xE9, CHR 0xEA, CHR 0xEB,
          CHR 0xEC, CHR 0xED, CHR 0xEE, CHR 0xEF, CHR 0xF0, CHR 0xF1,
          CHR 0xF2, CHR 0xF3, CHR 0xF4, CHR 0xF5, CHR 0xF6, CHR 0xF8,
          CHR 0xF9, CHR 0xFA, CHR 0xFB, CHR 0xFC, CHR 0xFD, CHR 0xFE])"

definition lower_char :: "char \<Rightarrow> char" where
  "lower_char c = (case map_of lower_table c of None \<Rightarrow> c | Some l \<Rightarrow> l)"

definition toLowerCase :: "string \<Rightarrow> string" where
  "toLowerCase s = map lower_char s"

text \<open>\<^verbatim>\<open>s.includes(t)\<close>: \<open>t\<close> occurs in \<open>s\<close> at some position.\<close>

fun starts_with :: "string \<Rightarrow> string \<Rightarrow> bool" where
  "starts_with s [] = True"
| "starts_with [] (c # t) = False"
| "starts_with (a # s) (c # t) = (a = c \<and> starts_with s t)"

fun str_includes :: "string \<Rightarrow> string \<Rightarrow> bool" where
  "str_includes [] t = (t = [])"
| "str_includes (a # s) t = (starts_with (a # s) t \<or> str_includes s t)"

text \<open>The JSON value of the status column: one of the three literals, or \<^verbatim>\<open>null\<close>.\<close>

definition status_literal :: "status \<Rightarrow> string" where
  "status_literal s = (case s of Read \<Rightarrow> ''read'' | Reading \<Rightarrow> ''reading'' | ToRead \<Rightarrow> ''to-read'')"

definition json_status :: "book \<Rightarrow> string option" where
  "json_status b = map_option status_literal (status b)"

subsection \<open>Loading, searching, filtering\<close>

text \<open>
  \<^verbatim>\<open>loadBooks\<close>: the assignment to \<^verbatim>\<open>books\<close> happens as soon as the body has
  been parsed, whatever \<^verbatim>\<open>response.ok\<close> is; spreading a non-array then throws
  inside the \<^verbatim>\<open>try\<close>, after the assignment.
\<close>

definition loadBooks :: "fetch_result \<Rightarrow> client \<Rightarrow> client" where
  "loadBooks r st =
    (case r of
       NetworkFailure \<Rightarrow> st
     | Response ok body \<Rightarrow>
         (case body of
            None \<Rightarrow> st
          | Some j \<Rightarrow>
              (let st1 = st\<lparr> books := j \<rparr> in
               case j of
                 BookArray bs \<Rightarrow> st1\<lparr> filteredBooks := bs \<rparr>
               | ErrorObject m \<Rightarrow> st1)))"

definition applyStatusFilter :: "client \<Rightarrow> client" where
  "applyStatusFilter st =
    (let statusValue = filterStatus st in
     if statusValue \<noteq> []
     then st\<lparr> filteredBooks :=
               filter (\<lambda>book. json_status book = Some statusValue) (filteredBooks st) \<rparr>
     else st)"

text \<open>
  \<^verbatim>\<open>handleSearch\<close>; \<^verbatim>\<open>books.filter\<close> is not a function when \<^verbatim>\<open>books\<close>
  holds an object, and the handler throws before assigning anything.
\<close>

definition search_match :: "string \<Rightarrow> book \<Rightarrow> bool" where
  "search_match searchTerm book =
    (str_includes (toLowerCase (title book)) searchTerm
     \<or> str_includes (toLowerCase (author book)) searchTerm)"

definition handleSearch :: "client \<Rightarrow> js_error + client" where
  "handleSearch st =
    (let searchTerm = toLowerCase (searchInput st) in
     case books st of
       ErrorObject m \<Rightarrow> Inl TypeError
     | BookArray bs \<Rightarrow>
         Inr (applyStatusFilter (st\<lparr> filteredBooks := filter (search_match searchTerm) bs \<rparr>)))"

definition handleFilter :: "client \<Rightarrow> client" where
  "handleFilter st = applyStatusFilter st"

text \<open>The two user events: typing into the search field, choosing a status.\<close>

definition type_search :: "string \<Rightarrow> client \<Rightarrow> js_error + client" where
  "type_search q st = handleSearch (st\<lparr> searchInput := q \<rparr>)"

definition select_status :: "string \<Rightarrow> client \<Rightarrow> client" where
  "select_status v st = handleFilter (st\<lparr> filterStatus := v \<rparr>)"

text \<open>
  \<^verbatim>\<open>handleAddBook\<close>, \<^verbatim>\<open>handleEditBook\<close> and \<^verbatim>\<open>deleteBook\<close>: the request,
  then, only when \<^verbatim>\<open>response.ok\<close>, a reload of the list. The first argument is the
  outcome of the mutation request, the second the outcome of the reload's fetch.
\<close>

definition handleAddBook :: "fetch_result \<Rightarrow> fetch_result \<Rightarrow> client \<Rightarrow> client" where
  "handleAddBook r reload st =
    (case r of
       NetworkFailure \<Rightarrow> st
     | Response ok body \<Rightarrow> if \<not> ok then st else loadBooks reload st)"

definition handleEditBook :: "fetch_result \<Rightarrow> fetch_result \<Rightarrow> client \<Rightarrow> client" where
  "handleEditBook r reload st =
    (case r of
       NetworkFailure \<Rightarrow> st
     | Response ok body \<Rightarrow> if \<not> ok then st else loadBooks reload st)"

definition deleteBook :: "bool \<Rightarrow> fetch_result \<Rightarrow> fetch_result \<Rightarrow> client \<Rightarrow> client" where
  "deleteBook confirmed r reload st =
    (if \<not> confirmed then st
     else case r of
       NetworkFailure \<Rightarrow> st
     | Response ok body \<Rightarrow> if \<not> ok then st else loadBooks reload st)"

subsection \<open>Rendering\<close>

text \<open>
  \<^verbatim>\<open>escapeHtml\<close>: the character class of the regular expression, the entity table,
  and the global replace that walks the text once and substitutes every match.
\<close>

definition escape_class :: "char list" where
  \<open>escape_class = [CHR ''&'', CHR ''<'', CHR ''>'', CHR 0x22, CHR 0x27]\<close>

definition escape_map :: "(char \<times> string) list" where
  \<open>escape_map =
    [(CHR ''&'', ''&amp;''), (CHR ''<'', ''&lt;''), (CHR ''>'', ''&gt;''),
     (CHR 0x22, ''&quot;''), (CHR 0x27, ''&#039;'')]\<close>

definition map_get :: "(char \<times> string) list \<Rightarrow> char \<Rightarrow> string" where
  "map_get m c = (case map_of m c of None \<Rightarrow> ''undefined'' | Some e \<Rightarrow> e)"

fun replace_all :: "char list \<Rightarrow> (char \<Rightarrow> string) \<Rightarrow> string \<Rightarrow> string" where
  "replace_all cls f [] = []"
| "replace_all cls f (c # cs) =
     (if c \<in> set cls then f c else [c]) @ replace_all cls f cs"

definition escapeHtml :: "string \<Rightarrow> string" where
  "escapeHtml text =
    (if text = [] then [] else replace_all escape_class (map_get escape_map) text)"

text \<open>
  \<^verbatim>\<open>formatStatus\<close>: the label of the status, or the status itself when the table has
  none (\<^verbatim>\<open>statusMap[status] || status\<close>).
\<close>

definition statusMap :: "(string \<times> string) list" where
  "statusMap =
    [(''read'', ''Read''), (''reading'', ''Currently Reading''), (''to-read'', ''To Read'')]"

definition formatStatus :: "string option \<Rightarrow> string option" where
  "formatStatus st =
    (case st of
       None \<Rightarrow> None
     | Some s \<Rightarrow> (case map_of statusMap s of None \<Rightarrow> Some s | Some l \<Rightarrow> Some l))"

text \<open>\<^verbatim>\<open>generateStars\<close>: five icons, filled for the positions up to the rating.\<close>

definition generateStars :: "int \<Rightarrow> string" where
  \<open>generateStars r =
    concat (map (\<lambda>i. if i \<le> r then ''<i class="fas fa-star"></i>''
                      else ''<i class="far fa-star"></i>'') [1, 2, 3, 4, 5])\<close>

text \<open>
  What a template literal writes for a substituted value; the decimal digits of a number
  are \<open>show_nat\<close>, defined with the storage model.
\<close>

definition show_int :: "int \<Rightarrow> string" where
  "show_int i = (if i < 0 then CHR ''-'' # show_nat (nat (- i)) else show_nat (nat i))"

definition show_text :: "string option \<Rightarrow> string" where
  "show_text v = (case v of None \<Rightarrow> ''null'' | Some s \<Rightarrow> s)"

text \<open>
  The card of one book, as the sequence of pieces that the template literal of
  \<^verbatim>\<open>renderBooks\<close> concatenates: \<open>Markup\<close> is text of the template itself (and the
  icons of \<^verbatim>\<open>generateStars\<close>), \<open>Data\<close> is the text written for a substitution
  that carries a value of the book. The markup is given without the template's
  indentation, line breaks and comments.
\<close>

datatype part = Markup string | Data string

fun part_text :: "part \<Rightarrow> string" where
  "part_text (Markup s) = s"
| "part_text (Data s) = s"

definition truthy_text :: "string option \<Rightarrow> bool" where
  "truthy_text v = (case v of None \<Rightarrow> False | Some s \<Rightarrow> s \<noteq> [])"

definition truthy_number :: "int option \<Rightarrow> bool" where
  "truthy_number v = (case v of None \<Rightarrow> False | Some n \<Rightarrow> n \<noteq> 0)"

definition card_parts :: "book \<Rightarrow> part list" where
  \<open>card_parts book =
    [Markup ''<div class="book-card"><h3>'', Data (escapeHtml (title book)),
     Markup ''</h3><p class="author">by '', Data (escapeHtml (author book)),
     Markup ''</p><div class="metadata">'']
    @ (if truthy_text (genre book)
       then [Markup ''<span><i class="fas fa-tag"></i> '',
             Data (escapeHtml (text_of (genre book))), Markup ''</span>'']
       else [])
    @ (if truthy_number (year_published book)
       then [Markup ''<span><i class="fas fa-calendar"></i> '',
             Data (case year_published book of None \<Rightarrow> ''null'' | Some y \<Rightarrow> show_int y),
             Markup ''</span>'']
       else [])
    @ (if truthy_text (isbn book)
       then [Markup ''<span><i class="fas fa-barcode"></i> '',
             Data (escapeHtml (text_of (isbn book))), Markup ''</span>'']
       else [])
    @ [Markup ''</div><div><span class="status-badge status-'',
       Data (show_text (json_status book)), Markup ''">'',
       Data (show_text (formatStatus (json_status book))), Markup ''</span>'']
    @ (if truthy_number (rating book)
       then [Markup ''<span class="rating">'',
             Markup (case rating book of None \<Rightarrow> [] | Some r \<Rightarrow> generateStars r),
             Markup ''</span>'']
       else [])
    @ [Markup ''</div>'']
    @ (if truthy_text (notes book)
       then [Markup ''<p class="notes">'', Data (escapeHtml (text_of (notes book))),
             Markup ''</p>'']
       else [])
    @ [Markup ''<div class="book-actions"><button class="btn btn-edit" onclick="openEditModal('',
       Data (show_nat (book_id book)),
       Markup '')"><i class="fas fa-edit"></i> Edit</button><button class="btn btn-delete" onclick="deleteBook('',
       Data (show_nat (book_id book)),
       Markup '')"><i class="fas fa-trash"></i> Delete</button></div></div>'']\<close>

definition renderBook :: "book \<Rightarrow> string" where
  "renderBook book = concat (map part_text (card_parts book))"

definition empty_state :: string where
  \<open>empty_state =
    ''<div class="empty-state"><i class="fas fa-book"></i><h3>No books found</h3><p>Add your first book to get started!</p></div>''\<close>

definition renderBooks :: "book list \<Rightarrow> string" where
  "renderBooks bs = (if bs = [] then empty_state else concat (map renderBook bs))"

text \<open>The template text of a card alone, every substituted value left out.\<close>

fun template_text :: "part \<Rightarrow> string" where
  "template_text (Markup s) = s"
| "template_text (Data s) = []"

definition skeleton :: "book \<Rightarrow> string" where
  "skeleton book = concat (map template_text (card_parts book))"

text \<open>The four characters that open or close a tag or an attribute value.\<close>

definition delimiter :: "char \<Rightarrow> bool" where
  \<open>delimiter c = (c = CHR ''<'' \<or> c = CHR ''>'' \<or> c = CHR 0x22 \<or> c = CHR 0x27)\<close>

text \<open>The entity that stands for a character, in the words of the specification.\<close>

definition html_entity :: "char \<Rightarrow> string" where
  \<open>html_entity c =
    (if c = CHR ''&'' then ''&amp;''
     else if c = CHR ''<'' then ''&lt;''
     else if c = CHR ''>'' then ''&gt;''
     else if c = CHR 0x22 then ''&quot;''
     else if c = CHR 0x27 then ''&#039;''
     else [c])\<close>

section \<open>Specification-side notions and sample data\<close>




text \<open>The count of rows with a status, the ratings that are present, their mean.\<close>

definition count_status :: "status \<Rightarrow> book list \<Rightarrow> nat" where
  "count_status s bs = length (filter (\<lambda>b. status b = Some s) bs)"

definition ratings :: "book list \<Rightarrow> int list" where
  "ratings bs = map the (filter (\<lambda>r. r \<noteq> None) (map rating bs))"

definition mean :: "int list \<Rightarrow> rat" where
  "mean xs = of_int (sum_list xs) / of_nat (length xs)"

text \<open>
  The displayed subset lies within the fetched set; an object in \<^verbatim>\<open>books\<close> has
  no elements.
\<close>

definition displayed_within_fetched :: "client \<Rightarrow> bool" where
  "displayed_within_fetched st =
    (case books st of
       BookArray bs \<Rightarrow> set (filteredBooks st) \<subseteq> set bs
     | ErrorObject m \<Rightarrow> filteredBooks st = [])"

text \<open>A body with a title and an author and nothing else.\<close>

definition title_author_only :: "string \<Rightarrow> string \<Rightarrow> body" where
  "title_author_only t a =
    \<lparr> body_title = Val t, body_author = Val a, body_isbn = Absent, body_genre = Absent,
      body_year_published = Absent, body_status = Absent, body_rating = Absent,
      body_notes = Absent \<rparr>"

definition rated :: "status \<Rightarrow> int property \<Rightarrow> string \<Rightarrow> body" where
  "rated s r t =
    (title_author_only t ''Anonymous'')\<lparr> body_status := Val s, body_rating := r \<rparr>"

definition empty_db :: db where
  "empty_db = \<lparr> rows = [], auto_increment = 1, issued = [] \<rparr>"

text \<open>The three rows that \<^verbatim>\<open>database_setup.sql\<close> inserts.\<close>

definition gatsby :: book where
  "gatsby =
    \<lparr> book_id = 1, title = ''The Great Gatsby'', author = ''F. Scott Fitzgerald'',
      isbn = Some ''9780743273565'', genre = Some ''Fiction'', year_published = Some 1925,
      status = Some Read, rating = Some 5, notes = Some ''A classic American novel'',
      created_at = 0, updated_at = 0 \<rparr>"

definition nineteen84 :: book where
  "nineteen84 =
    \<lparr> book_id = 2, title = ''1984'', author = ''George Orwell'',
      isbn = Some ''9780451524935'', genre = Some ''Dystopian'', year_published = Some 1949,
      status = Some Read, rating = Some 5,
      notes = Some ''Thought-provoking dystopian masterpiece'',
      created_at = 0, updated_at = 0 \<rparr>"

definition mockingbird :: book where
  "mockingbird =
    \<lparr> book_id = 3, title = ''To Kill a Mockingbird'', author = ''Harper Lee'',
      isbn = Some ''9780061120084'', genre = Some ''Fiction'', year_published = Some 1960,
      status = Some Reading, rating = None, notes = Some ''Currently reading'',
      created_at = 0, updated_at = 0 \<rparr>"

definition sample_db :: db where
  "sample_db =
    \<lparr> rows = [gatsby, nineteen84, mockingbird], auto_increment = 4, issued = [] \<rparr>"

text \<open>Four books created through the API, with statuses read, read, reading, to-read.\<close>

definition four_books :: db where
  "four_books =
    snd (post_book 4 (rated ToRead Absent ''D'')
      (snd (post_book 3 (rated Reading Null ''C'')
        (snd (post_book 2 (rated Read (Val 4) ''B'')
          (snd (post_book 1 (rated Read (Val 5) ''A'') empty_db)))))))"

text \<open>A table of three books rated 5, 4 and 4.\<close>

definition rated_544 :: db where
  "rated_544 =
    \<lparr> rows = [gatsby, nineteen84\<lparr> rating := Some 4 \<rparr>, mockingbird\<lparr> rating := Some 4 \<rparr>],
      auto_increment = 4, issued = [] \<rparr>"

text \<open>A decimal of four places as a number.\<close>

definition decimal4_value :: "int \<Rightarrow> rat" where
  "decimal4_value n = of_int n / 10000"

text \<open>An edit of the third sample row: finished, five stars.\<close>

definition finished :: body where
  "finished =
    \<lparr> body_title = Val ''To Kill a Mockingbird'', body_author = Val ''Harper Lee'',
      body_isbn = Val ''9780061120084'', body_genre = Val ''Fiction'',
      body_year_published = Val 1960, body_status = Val Read, body_rating = Val 5,
      body_notes = Null \<rparr>"

text \<open>The client after a successful load of the sample rows.\<close>

definition loaded :: client where
  "loaded =
    loadBooks (Response True (Some (BookArray [gatsby, nineteen84, mockingbird])))
      initial_client"



text \<open>The list endpoint's answer when storage fails: status 500, an error object.\<close>

definition storage_down :: fetch_result where
  "storage_down = Response False (Some (ErrorObject ''connect ECONNREFUSED''))"

definition xss_book :: book where
  \<open>xss_book = gatsby\<lparr> title := ''<script>alert(1)</script>'' \<rparr>\<close>

section \<open>Properties of the API service\<close>

subsection \<open>Storage lemmas\<close>

lemma filter_id_absent:
  "i \<notin> book_id ` set bs \<Longrightarrow> filter (\<lambda>b. book_id b = i) bs = []"
  by (induction bs) auto

lemma filter_Cons_find:
  "filter P xs = y # ys \<Longrightarrow> find P xs = Some y"
  by (induction xs) (auto split: if_splits)

lemma sql_update_zero:
  "(fst (sql_update now v i d) = Inr 0) = (i \<notin> book_id ` set (rows d))"
  by (auto simp: sql_update_def Let_def filter_empty_conv split: option.splits)

lemma set_columns_id: "book_id (set_columns now v b) = book_id b"
  by (simp add: set_columns_def Let_def)

lemma set_columns_cols:
  "title (set_columns now v b) = text_of (v_title v)"
  "author (set_columns now v b) = text_of (v_author v)"
  "isbn (set_columns now v b) = v_isbn v"
  "genre (set_columns now v b) = v_genre v"
  "year_published (set_columns now v b) = v_year_published v"
  "status (set_columns now v b) = stored_status (v_status v)"
  "rating (set_columns now v b) = v_rating v"
  "notes (set_columns now v b) = v_notes v"
  by (simp_all add: set_columns_def Let_def)

lemma filter_map_set_columns:
  "filter (\<lambda>b. book_id b = i)
     (map (\<lambda>b. if book_id b = i then set_columns now v b else b) bs)
   = map (set_columns now v) (filter (\<lambda>b. book_id b = i) bs)"
  by (induction bs) (auto simp: set_columns_id)

text \<open>A column that the statement leaves out would take the declared default.\<close>

lemma omitted_status_takes_default:
  "status (new_row now i (v\<lparr> v_status := Omitted \<rparr>)) = Some ToRead"
  by (simp add: new_row_def stored_status_def status_default_def)

lemma params_status_given: "v_status (params req) = Given (bind (body_status req))"
  by (simp add: params_def)

subsection \<open>Creating with title and author only\<close>

text \<open>
  For every non-empty title and author that fit their columns, the created record has
  \<^verbatim>\<open>NULL\<close> in every optional column, the status included: the statement names the
  status column, so the declared default is not applied.
\<close>

lemma post_book_title_author_only:
  assumes "t \<noteq> []" "a \<noteq> []" "length t \<le> 255" "length a \<le> 255"
    and "auto_increment d \<notin> book_id ` set (rows d)"
  shows "fst (post_book now (title_author_only t a) d) =
    \<lparr> res_status = 201,
      res_json = Book \<lparr> book_id = auto_increment d, title = t, author = a,
        isbn = None, genre = None, year_published = None, status = None, rating = None,
        notes = None, created_at = now, updated_at = now \<rparr> \<rparr>"
  using assms
  by (simp add: post_book_def title_author_only_def sql_insert_def sql_select_by_id_def
      constraint_error_def fits_def in_int_def rating_check_def isbn_unique_def new_row_def
      stored_status_def text_of_def params_def bind_def truthy_def first_row_def Let_def
      filter_id_absent)

text \<open>
  Claim C1, evaluated on the code: creating a book from a body that holds only the title
  "Dune" and the author "Frank Herbert" returns, and stores, a record whose isbn, genre,
  year, rating and notes are null, and whose status is null too, not \<^verbatim>\<open>to-read\<close>.
\<close>

theorem post_book_title_author_only_status_null:
  "post_book 7 (title_author_only ''Dune'' ''Frank Herbert'') empty_db =
    (\<lparr> res_status = 201,
       res_json = Book \<lparr> book_id = 1, title = ''Dune'', author = ''Frank Herbert'',
         isbn = None, genre = None, year_published = None, status = None, rating = None,
         notes = None, created_at = 7, updated_at = 7 \<rparr> \<rparr>,
     \<lparr> rows = [\<lparr> book_id = 1, title = ''Dune'', author = ''Frank Herbert'',
         isbn = None, genre = None, year_published = None, status = None, rating = None,
         notes = None, created_at = 7, updated_at = 7 \<rparr>],
       auto_increment = 2,
       issued = [Insert (params (title_author_only ''Dune'' ''Frank Herbert'')),
                 SelectById 1] \<rparr>)"
  by (simp add: post_book_def title_author_only_def empty_db_def sql_insert_def
      sql_select_by_id_def constraint_error_def fits_def in_int_def rating_check_def
      isbn_unique_def new_row_def stored_status_def text_of_def params_def bind_def
      truthy_def first_row_def Let_def)

theorem post_book_title_author_only_status_null_witness:
  "res_status (fst (post_book 7 (title_author_only ''Dune'' ''Frank Herbert'') empty_db)) = 201
   \<and> map status
       (rows (snd (post_book 7 (title_author_only ''Dune'' ''Frank Herbert'') empty_db)))
     = [None]"
  using post_book_title_author_only_status_null by simp

subsection \<open>Validation on create\<close>

text \<open>
  Claim C7 as stated fails: a body that contains both a title and an author is still
  rejected with 400 when the title is the empty string.
\<close>

theorem post_book_empty_title_counterexample:
  "body_title (title_author_only [] ''George Orwell'') = Val []
   \<and> body_author (title_author_only [] ''George Orwell'') = Val ''George Orwell''
   \<and> res_status (fst (post_book 0 (title_author_only [] ''George Orwell'') empty_db)) = 400"
  by (simp add: title_author_only_def post_book_def truthy_def)

text \<open>
  Claim C7, amended: when title or author is absent, and likewise when it is null or the
  empty string, the create operation answers 400 with the database exactly as it was, no
  statement issued and no row stored; when both are non-empty, the answer is never 400
  (it is 201 or 500) and the insert is issued.
\<close>

theorem post_book_validation:
  "(body_title req = Absent \<or> body_author req = Absent
      \<or> \<not> truthy (body_title req) \<or> \<not> truthy (body_author req) \<longrightarrow>
      post_book now req d =
        (\<lparr> res_status = 400, res_json = Error ''Title and author are required'' \<rparr>, d))
   \<and> (truthy (body_title req) \<and> truthy (body_author req) \<longrightarrow>
        res_status (fst (post_book now req d)) \<noteq> 400
        \<and> res_status (fst (post_book now req d)) \<in> {201, 500}
        \<and> (\<exists>rest. issued (snd (post_book now req d))
               = issued d @ Insert (params req) # rest))"
  by (auto simp: post_book_def sql_insert_def sql_select_by_id_def truthy_def Let_def
      split: option.splits prod.splits sum.splits)

theorem post_book_validation_witness:
  "post_book 0 ((title_author_only ''Dune'' ''Frank Herbert'')\<lparr> body_title := Absent \<rparr>)
      sample_db =
     (\<lparr> res_status = 400, res_json = Error ''Title and author are required'' \<rparr>, sample_db)
   \<and> res_status (fst (post_book 0 (title_author_only ''Dune'' ''Frank Herbert'') sample_db))
       \<noteq> 400"
  using post_book_validation
      [of "(title_author_only ''Dune'' ''Frank Herbert'')\<lparr> body_title := Absent \<rparr>"
          0 sample_db]
    post_book_validation [of "title_author_only ''Dune'' ''Frank Herbert''" 0 sample_db]
  by (simp add: title_author_only_def truthy_def)

subsection \<open>Update: no validation, not found\<close>

text \<open>
  Claim C8: for every update request, whatever the body holds or misses, the response is
  never 400 (it is 200, 404 or 500), and the first thing the operation does is issue the
  update of all eight columns with the body's values.
\<close>

theorem put_book_no_validation:
  "res_status (fst (put_book now i req d)) \<noteq> 400
   \<and> res_status (fst (put_book now i req d)) \<in> {200, 404, 500}
   \<and> (\<exists>rest. issued (snd (put_book now i req d)) = issued d @ Update (params req) i # rest)"
  by (auto simp: put_book_def sql_update_def sql_select_by_id_def Let_def
      split: option.splits prod.splits sum.splits)

theorem put_book_no_validation_witness:
  "body_title (finished\<lparr> body_title := Absent \<rparr>) = Absent
   \<and> res_status (fst (put_book 9 3 (finished\<lparr> body_title := Absent \<rparr>) sample_db)) \<noteq> 400
   \<and> (\<exists>rest. issued (snd (put_book 9 3 (finished\<lparr> body_title := Absent \<rparr>) sample_db))
         = issued sample_db @ Update (params (finished\<lparr> body_title := Absent \<rparr>)) 3 # rest)"
  using put_book_no_validation [of 9 3 "finished\<lparr> body_title := Absent \<rparr>" sample_db]
  by simp

text \<open>What the storage engine answers to that update of an existing row: an error, 500.\<close>

lemma put_book_missing_title_existing_row:
  "fst (put_book 9 3 (finished\<lparr> body_title := Absent \<rparr>) sample_db) =
     \<lparr> res_status = 500, res_json = StorageError ColumnCannotBeNull \<rparr>
   \<and> rows (snd (put_book 9 3 (finished\<lparr> body_title := Absent \<rparr>) sample_db))
       = rows sample_db"
  by (simp add: put_book_def sql_update_def constraint_error_def params_def bind_def
      finished_def sample_db_def gatsby_def nineteen84_def mockingbird_def Let_def)

text \<open>
  Claim C6: when no stored row has the identifier, which is exactly when the update
  reports zero affected rows, the response is 404 "Book not found" and the table is as
  before; when the update reports affected rows, the operation issues the select by the
  same identifier and answers 200 with the row now stored under it, which is the old row
  with the eight columns replaced.
\<close>

theorem put_book_not_found_or_updated:
  "(i \<notin> book_id ` set (rows d) \<longrightarrow>
      fst (put_book now i req d) =
        \<lparr> res_status = 404, res_json = Error ''Book not found'' \<rparr>
      \<and> rows (snd (put_book now i req d)) = rows d)
   \<and> (fst (sql_update now (params req) i d) = Inr 0) = (i \<notin> book_id ` set (rows d))
   \<and> (\<forall>n d1. sql_update now (params req) i d = (Inr n, d1) \<and> n \<noteq> 0 \<longrightarrow>
        (\<exists>old. find (\<lambda>b. book_id b = i) (rows d) = Some old
           \<and> put_book now i req d =
               (\<lparr> res_status = 200, res_json = Book (set_columns now (params req) old) \<rparr>,
                d1\<lparr> issued := issued d1 @ [SelectById i] \<rparr>)
           \<and> find (\<lambda>b. book_id b = i) (rows d1)
               = Some (set_columns now (params req) old)))"
proof (intro conjI allI impI)
  assume "i \<notin> book_id ` set (rows d)"
  then show "fst (put_book now i req d) =
      \<lparr> res_status = 404, res_json = Error ''Book not found'' \<rparr>"
    by (simp add: put_book_def sql_update_def Let_def filter_id_absent)
next
  assume "i \<notin> book_id ` set (rows d)"
  then show "rows (snd (put_book now i req d)) = rows d"
    by (simp add: put_book_def sql_update_def Let_def filter_id_absent)
next
  show "(fst (sql_update now (params req) i d) = Inr 0) = (i \<notin> book_id ` set (rows d))"
    by (rule sql_update_zero)
next
  fix n d1
  assume a: "sql_update now (params req) i d = (Inr n, d1) \<and> n \<noteq> 0"
  obtain old rest where m: "filter (\<lambda>b. book_id b = i) (rows d) = old # rest"
    using a by (cases "filter (\<lambda>b. book_id b = i) (rows d)") (auto simp: sql_update_def Let_def)
  have f: "find (\<lambda>b. book_id b = i) (rows d) = Some old"
    using m by (rule filter_Cons_find)
  have r: "rows d1 =
      map (\<lambda>b. if book_id b = i then set_columns now (params req) b else b) (rows d)"
    using a m by (auto simp: sql_update_def Let_def split: option.splits)
  have m1: "filter (\<lambda>b. book_id b = i) (rows d1) =
      set_columns now (params req) old # map (set_columns now (params req)) rest"
    by (simp add: r filter_map_set_columns m)
  have p: "put_book now i req d =
      (\<lparr> res_status = 200, res_json = Book (set_columns now (params req) old) \<rparr>,
       d1\<lparr> issued := issued d1 @ [SelectById i] \<rparr>)"
    using a m1 by (simp add: put_book_def sql_select_by_id_def first_row_def)
  have "find (\<lambda>b. book_id b = i) (rows d1) = Some (set_columns now (params req) old)"
    using m1 by (rule filter_Cons_find)
  with f p show "\<exists>old. find (\<lambda>b. book_id b = i) (rows d) = Some old
      \<and> put_book now i req d =
          (\<lparr> res_status = 200, res_json = Book (set_columns now (params req) old) \<rparr>,
           d1\<lparr> issued := issued d1 @ [SelectById i] \<rparr>)
      \<and> find (\<lambda>b. book_id b = i) (rows d1) = Some (set_columns now (params req) old)"
    by blast
qed

lemma sample_update_accepted:
  "sql_update 9 (params finished) 3 sample_db =
    (Inr 1,
     \<lparr> rows = [gatsby, nineteen84,
         mockingbird\<lparr> status := Some Read, rating := Some 5, notes := None,
                      updated_at := 9 \<rparr>],
       auto_increment = 4, issued = [Update (params finished) 3] \<rparr>)"
  by (simp add: sql_update_def constraint_error_def fits_def in_int_def rating_check_def
      isbn_unique_def set_columns_def stored_status_def text_of_def params_def bind_def
      finished_def sample_db_def gatsby_def nineteen84_def mockingbird_def Let_def)

theorem put_book_not_found_or_updated_witness:
  "99 \<notin> book_id ` set (rows sample_db)
   \<and> fst (put_book 9 99 finished sample_db) =
       \<lparr> res_status = 404, res_json = Error ''Book not found'' \<rparr>
   \<and> rows (snd (put_book 9 99 finished sample_db)) = rows sample_db
   \<and> fst (put_book 9 3 finished sample_db) =
       \<lparr> res_status = 200,
         res_json = Book (mockingbird\<lparr> status := Some Read, rating := Some 5,
                                       notes := None, updated_at := 9 \<rparr>) \<rparr>"
proof -
  have absent: "99 \<notin> book_id ` set (rows sample_db)"
    by (simp add: sample_db_def gatsby_def nineteen84_def mockingbird_def)
  have old: "find (\<lambda>b. book_id b = 3) (rows sample_db) = Some mockingbird"
    by (simp add: sample_db_def gatsby_def nineteen84_def mockingbird_def)
  have new: "set_columns 9 (params finished) mockingbird =
      mockingbird\<lparr> status := Some Read, rating := Some 5, notes := None, updated_at := 9 \<rparr>"
    by (simp add: set_columns_def stored_status_def text_of_def params_def bind_def
        finished_def mockingbird_def Let_def)
  note t = put_book_not_found_or_updated
  from t [of 99 sample_db 9 finished] absent
  have nf: "fst (put_book 9 99 finished sample_db) =
        \<lparr> res_status = 404, res_json = Error ''Book not found'' \<rparr>
      \<and> rows (snd (put_book 9 99 finished sample_db)) = rows sample_db"
    by blast
  from t [of 3 sample_db 9 finished] sample_update_accepted
  have "\<exists>old. find (\<lambda>b. book_id b = 3) (rows sample_db) = Some old
      \<and> fst (put_book 9 3 finished sample_db) =
          \<lparr> res_status = 200, res_json = Book (set_columns 9 (params finished) old) \<rparr>"
    by fastforce
  with old new have "fst (put_book 9 3 finished sample_db) =
      \<lparr> res_status = 200,
        res_json = Book (mockingbird\<lparr> status := Some Read, rating := Some 5,
                                      notes := None, updated_at := 9 \<rparr>) \<rparr>"
    by simp
  with absent nf show ?thesis by blast
qed

subsection \<open>Statistics\<close>

lemma non_null_conv: "non_null xs = map the (filter (\<lambda>x. x \<noteq> None) xs)"
  by (induction xs rule: non_null.induct) auto

lemma count_case_when:
  "sql_count (map (\<lambda>b. case_when_1 (sql_eq (status b) s)) bs) = count_status s bs"
  unfolding sql_count_def count_status_def
  by (induction bs) (auto simp: case_when_1_def sql_eq_def split: option.splits)

lemma round4_near: "\<bar>decimal4_value (round4 x) - x\<bar> \<le> 1 / 20000"
proof -
  have near: "\<bar>of_int \<lfloor>y + 1 / 2\<rfloor> - y\<bar> \<le> 1 / 2" for y :: rat
  proof -
    have "of_int \<lfloor>y + 1 / 2\<rfloor> \<le> y + 1 / 2" "y + 1 / 2 < of_int \<lfloor>y + 1 / 2\<rfloor> + 1"
      by linarith+
    then show ?thesis by linarith
  qed
  have scale: "\<bar>of_int n / 10000 - x\<bar> \<le> 1 / 20000" if "\<bar>of_int n - x * 10000\<bar> \<le> 1 / 2"
    for n :: int
  proof -
    define z :: rat where "z = of_int n / 10000"
    have n: "of_int n = z * 10000" by (simp add: z_def)
    from that have "z * 10000 - x * 10000 \<le> 1 / 2" "x * 10000 - z * 10000 \<le> 1 / 2"
      unfolding n abs_le_iff by simp_all
    then have "z - x \<le> 1 / 20000" "x - z \<le> 1 / 20000" by linarith+
    then show ?thesis unfolding z_def [symmetric] abs_le_iff by simp
  qed
  show ?thesis
  proof (cases "0 \<le> x")
    case True
    have "\<bar>of_int \<lfloor>x * 10000 + 1 / 2\<rfloor> - x * 10000\<bar> \<le> 1 / 2"
      by (rule near)
    then show ?thesis
      using True scale unfolding round4_def decimal4_value_def by simp
  next
    case False
    define k :: rat where "k = of_int \<lfloor>- x * 10000 + 1 / 2\<rfloor>"
    have "\<bar>k - (- x * 10000)\<bar> \<le> 1 / 2"
      unfolding k_def by (rule near)
    then have "\<bar>- k - x * 10000\<bar> \<le> 1 / 2" by linarith
    moreover have "of_int (- \<lfloor>- x * 10000 + 1 / 2\<rfloor>) = - k"
      by (simp add: k_def)
    ultimately have "\<bar>of_int (- \<lfloor>- x * 10000 + 1 / 2\<rfloor>) - x * 10000\<bar> \<le> 1 / 2"
      by simp
    then have "\<bar>of_int (- \<lfloor>- x * 10000 + 1 / 2\<rfloor>) / 10000 - x\<bar> \<le> 1 / 20000"
      by (rule scale)
    then show ?thesis
      using False unfolding round4_def decimal4_value_def by simp
  qed
qed

lemma sql_avg_mean:
  "sql_avg (map rating bs) =
    (if ratings bs = [] then None else Some (round4 (mean (ratings bs))))"
  by (simp add: sql_avg_def non_null_conv ratings_def mean_def Let_def)

lemma decimal4_examples:
  "round4 (9 / 2) = 45000" "decimal4_text 45000 = ''4.5000''"
  "round4 (13 / 3) = 43333" "decimal4_text 43333 = ''4.3333''"
  by (simp_all add: round4_def floor_eq_iff decimal4_text_def show_nat.simps digit_def)

text \<open>
  Claim C9 as stated fails: over three books rated 5, 4 and 4 the statistics operation
  answers \<^verbatim>\<open>average_rating\<close> "4.3333", four digits after the point, and that
  decimal is not the arithmetic mean 13/3.
\<close>

theorem get_stats_overview_average_counterexample:
  "res_json (fst (get_stats_overview rated_544)) =
     Stats \<lparr> total_books = 3, books_read = 2, books_reading = 1, books_to_read = 0,
             average_rating = Some ''4.3333'' \<rparr>
   \<and> mean (ratings (rows rated_544)) = 13 / 3
   \<and> decimal4_value 43333 \<noteq> 13 / 3"
proof -
  have r: "ratings (rows rated_544) = [5, 4, 4]"
    by (simp add: ratings_def rated_544_def gatsby_def nineteen84_def mockingbird_def)
  have m: "mean (ratings (rows rated_544)) = 13 / 3"
    unfolding r by (simp add: mean_def)
  have a: "sql_avg (map rating (rows rated_544)) = Some 43333"
    unfolding sql_avg_mean m using r by (simp add: decimal4_examples)
  have c: "map status (rows rated_544) = [Some Read, Some Read, Some Reading]"
    by (simp add: rated_544_def gatsby_def nineteen84_def mockingbird_def)
  have cs: "count_status x bs = length (filter (\<lambda>v. v = Some x) (map status bs))" for x bs
    by (simp add: count_status_def filter_map comp_def)
  have l: "length (rows rated_544) = 3"
    by (simp add: rated_544_def)
  have "res_json (fst (get_stats_overview rated_544)) =
     Stats \<lparr> total_books = 3, books_read = 2, books_reading = 1, books_to_read = 0,
             average_rating = Some ''4.3333'' \<rparr>"
    by (simp add: get_stats_overview_def sql_select_stats_def count_case_when cs c a l
        decimal4_examples)
  moreover have "decimal4_value 43333 \<noteq> 13 / 3"
    by (simp add: decimal4_value_def)
  ultimately show ?thesis using m by simp
qed

text \<open>
  Claim C9, amended: for every table, the statistics operation answers 200 with
  \<^verbatim>\<open>total_books\<close> the number of rows, the three status counts the numbers of rows
  with that status, and \<^verbatim>\<open>average_rating\<close> the arithmetic mean of the ratings that
  are not null rounded to four decimal places, written as a decimal string (null when
  there is no rating); the rounded value is within half a ten-thousandth of the mean;
  the table is not changed.
\<close>

theorem get_stats_overview_counts:
  "\<exists>s. get_stats_overview d =
         (\<lparr> res_status = 200, res_json = Stats s \<rparr>,
          d\<lparr> issued := issued d @ [SelectStats] \<rparr>)
     \<and> total_books s = length (rows d)
     \<and> books_read s = count_status Read (rows d)
     \<and> books_reading s = count_status Reading (rows d)
     \<and> books_to_read s = count_status ToRead (rows d)
     \<and> average_rating s =
         (if ratings (rows d) = [] then None
          else Some (decimal4_text (round4 (mean (ratings (rows d))))))
     \<and> \<bar>decimal4_value (round4 (mean (ratings (rows d)))) - mean (ratings (rows d))\<bar>
         \<le> 1 / 20000"
proof -
  let ?s = "\<lparr> total_books = length (rows d),
      books_read = count_status Read (rows d),
      books_reading = count_status Reading (rows d),
      books_to_read = count_status ToRead (rows d),
      average_rating = map_option decimal4_text (sql_avg (map rating (rows d))) \<rparr>"
  have g: "get_stats_overview d =
      (\<lparr> res_status = 200, res_json = Stats ?s \<rparr>, d\<lparr> issued := issued d @ [SelectStats] \<rparr>)"
    by (simp add: get_stats_overview_def sql_select_stats_def count_case_when)
  have a: "average_rating ?s =
      (if ratings (rows d) = [] then None
       else Some (decimal4_text (round4 (mean (ratings (rows d))))))"
    by (simp add: sql_avg_mean)
  have n: "\<bar>decimal4_value (round4 (mean (ratings (rows d)))) - mean (ratings (rows d))\<bar>
      \<le> 1 / 20000"
    by (rule round4_near)
  show ?thesis
    by (rule exI [of _ ?s]) (use g a n in simp)
qed

lemma post_rated:
  "auto_increment d \<notin> book_id ` set (rows d) \<Longrightarrow> t \<noteq> [] \<Longrightarrow> length t \<le> 255 \<Longrightarrow>
   rating_check (bind r) \<Longrightarrow> in_int (bind r) \<Longrightarrow>
   rows (snd (post_book now (rated s r t) d)) =
     rows d @ [\<lparr> book_id = auto_increment d, title = t, author = ''Anonymous'',
       isbn = None, genre = None, year_published = None, status = Some s, rating = bind r,
       notes = None, created_at = now, updated_at = now \<rparr>]
   \<and> auto_increment (snd (post_book now (rated s r t) d)) = Suc (auto_increment d)"
  by (simp add: post_book_def rated_def title_author_only_def sql_insert_def
      sql_select_by_id_def constraint_error_def fits_def isbn_unique_def new_row_def
      stored_status_def text_of_def params_def truthy_def Let_def bind_def [of "Val t"]
      bind_def [of "Val ''Anonymous''"] bind_def [of Absent] bind_def [of "Val s"] in_int_def)

lemma four_books_rows:
  "map status (rows four_books) = [Some Read, Some Read, Some Reading, Some ToRead]
   \<and> map rating (rows four_books) = [Some 5, Some 4, None, None]"
proof -
  let ?d1 = "snd (post_book 1 (rated Read (Val 5) ''A'') empty_db)"
  let ?d2 = "snd (post_book 2 (rated Read (Val 4) ''B'') ?d1)"
  let ?d3 = "snd (post_book 3 (rated Reading Null ''C'') ?d2)"
  have 1: "map book_id (rows ?d1) = [1] \<and> auto_increment ?d1 = 2
      \<and> map status (rows ?d1) = [Some Read] \<and> map rating (rows ?d1) = [Some 5]"
    using post_rated [of empty_db "''A''" "Val 5" 1 Read]
    by (simp add: empty_db_def rating_check_def in_int_def bind_def)
  have 2: "map book_id (rows ?d2) = [1, 2] \<and> auto_increment ?d2 = 3
      \<and> map status (rows ?d2) = [Some Read, Some Read]
      \<and> map rating (rows ?d2) = [Some 5, Some 4]"
    using 1 post_rated [of ?d1 "''B''" "Val 4" 2 Read]
    by (simp add: rating_check_def in_int_def bind_def image_iff flip: set_map)
  have 3: "map book_id (rows ?d3) = [1, 2, 3] \<and> auto_increment ?d3 = 4
      \<and> map status (rows ?d3) = [Some Read, Some Read, Some Reading]
      \<and> map rating (rows ?d3) = [Some 5, Some 4, None]"
    using 2 post_rated [of ?d2 "''C''" Null 3 Reading]
    by (simp add: rating_check_def in_int_def bind_def flip: set_map)
  show ?thesis
    unfolding four_books_def
    using 3 post_rated [of ?d3 "''D''" Absent 4 ToRead]
    by (simp add: rating_check_def in_int_def bind_def flip: set_map)
qed

theorem get_stats_overview_counts_witness:
  "\<exists>s. fst (get_stats_overview four_books) = \<lparr> res_status = 200, res_json = Stats s \<rparr>
     \<and> total_books s = 4 \<and> books_read s = 2 \<and> books_reading s = 1 \<and> books_to_read s = 1
     \<and> average_rating s = Some ''4.5000''"
proof -
  obtain s where s: "get_stats_overview four_books =
        (\<lparr> res_status = 200, res_json = Stats s \<rparr>,
         four_books\<lparr> issued := issued four_books @ [SelectStats] \<rparr>)"
     "total_books s = length (rows four_books)"
     "books_read s = count_status Read (rows four_books)"
     "books_reading s = count_status Reading (rows four_books)"
     "books_to_read s = count_status ToRead (rows four_books)"
     "average_rating s =
        (if ratings (rows four_books) = [] then None
         else Some (decimal4_text (round4 (mean (ratings (rows four_books))))))"
    using get_stats_overview_counts [of four_books] by blast
  have cs: "count_status x bs = length (filter (\<lambda>v. v = Some x) (map status bs))" for x bs
    by (simp add: count_status_def filter_map comp_def)
  have l: "length (rows four_books) = length (map status (rows four_books))" by simp
  have r: "ratings (rows four_books) = [5, 4]"
    unfolding ratings_def using four_books_rows by simp
  have "total_books s = 4" unfolding s(2) l using four_books_rows by simp
  moreover have "books_read s = 2 \<and> books_reading s = 1 \<and> books_to_read s = 1"
    unfolding s cs using four_books_rows by simp
  moreover have "average_rating s = Some ''4.5000''"
    unfolding s r by (simp add: mean_def decimal4_examples)
  ultimately show ?thesis using s(1) by simp
qed

section \<open>Properties of the client\<close>

subsection \<open>Search\<close>









lemma loaded_eq:
  "loaded = \<lparr> books = BookArray [gatsby, nineteen84, mockingbird],
      filteredBooks = [gatsby, nineteen84, mockingbird], searchInput = [],
      filterStatus = [] \<rparr>"
  by (simp add: loaded_def loadBooks_def initial_client_def)






subsection \<open>Status filter\<close>

text \<open>
  What a change of the selection does: it narrows the list that is displayed at that
  moment, and an empty selection ("all") leaves that list as it is. The list of all
  books is not consulted.
\<close>

lemma select_status_narrows:
  "filteredBooks (select_status v st) =
    (if v = [] then filteredBooks st
     else filter (\<lambda>b. json_status b = Some v) (filteredBooks st))"
  by (simp add: select_status_def handleFilter_def applyStatusFilter_def Let_def)

lemma select_status_frame:
  "books (select_status v st) = books st \<and> searchInput (select_status v st) = searchInput st
   \<and> filterStatus (select_status v st) = v"
  by (simp add: select_status_def handleFilter_def applyStatusFilter_def Let_def)

text \<open>
  The result is the one the specification describes whenever the displayed list is the
  search-filtered list at the moment of the change, as it is right after a search made
  with no status selected.
\<close>

lemma select_status_on_search_result:
  assumes "filteredBooks st = filter (search_match (toLowerCase (searchInput st))) bs"
  shows "filteredBooks (select_status v st) =
    filter (\<lambda>b. search_match (toLowerCase (searchInput st)) b
                \<and> (v = [] \<or> json_status b = Some v)) bs"
  using assms by (cases "v = []") (simp_all add: select_status_narrows)

text \<open>
  Claim C2, evaluated on the code: with the three sample books loaded and an empty query,
  selecting "read" and then "reading" displays nothing, although the search-filtered
  books with status "reading" are one; selecting "read" and then "all" keeps displaying
  the two read books, although the search-filtered books are three.
\<close>

theorem select_status_keeps_previous_narrowing:
  "filteredBooks (select_status ''reading'' (select_status ''read'' loaded)) = []
   \<and> filter (\<lambda>b. json_status b = Some ''reading'')
       (filter (search_match (toLowerCase (searchInput (select_status ''read'' loaded))))
          [gatsby, nineteen84, mockingbird]) = [mockingbird]
   \<and> filteredBooks (select_status [] (select_status ''read'' loaded)) = [gatsby, nineteen84]
   \<and> filter (search_match (toLowerCase (searchInput (select_status ''read'' loaded))))
       [gatsby, nineteen84, mockingbird] = [gatsby, nineteen84, mockingbird]"
  by (simp add: select_status_narrows select_status_frame loaded_eq json_status_def
      status_literal_def search_match_def toLowerCase_def gatsby_def nineteen84_def
      mockingbird_def)

theorem select_status_keeps_previous_narrowing_witness:
  "filteredBooks (select_status ''reading'' (select_status ''read'' loaded)) \<noteq> [mockingbird]
   \<and> filteredBooks (select_status [] (select_status ''read'' loaded))
     \<noteq> [gatsby, nineteen84, mockingbird]"
  using select_status_keeps_previous_narrowing by simp

subsection \<open>Failing operations\<close>

text \<open>
  A request that fails, by a rejected fetch or by a response that is not ok, leaves the
  state of the add, edit and delete handlers as it was; so does a load whose fetch is
  rejected or whose body cannot be parsed.
\<close>

lemma failed_mutation_keeps_state:
  "handleAddBook NetworkFailure reload st = st"
  "handleAddBook (Response False body) reload st = st"
  "handleEditBook NetworkFailure reload st = st"
  "handleEditBook (Response False body) reload st = st"
  "deleteBook confirmed NetworkFailure reload st = st"
  "deleteBook confirmed (Response False body) reload st = st"
  by (simp_all add: handleAddBook_def handleEditBook_def deleteBook_def)

lemma failed_fetch_keeps_state:
  "loadBooks NetworkFailure st = st"
  "loadBooks (Response ok None) st = st"
  by (simp_all add: loadBooks_def)

text \<open>
  Claim C3, evaluated on the code: a load that receives the 500 response of the list
  endpoint, whose body is an error object, has already assigned that object to
  \<^verbatim>\<open>books\<close> when the spread throws; \<^verbatim>\<open>books\<close> no longer holds the three
  books, \<^verbatim>\<open>filteredBooks\<close> still does, and the next search throws.
\<close>

theorem loadBooks_error_response_overwrites_books:
  "books loaded = BookArray [gatsby, nineteen84, mockingbird]
   \<and> books (loadBooks storage_down loaded) = ErrorObject ''connect ECONNREFUSED''
   \<and> filteredBooks (loadBooks storage_down loaded) = [gatsby, nineteen84, mockingbird]
   \<and> type_search ''orwell'' (loadBooks storage_down loaded) = Inl TypeError"
  by (simp add: loaded_eq storage_down_def loadBooks_def type_search_def handleSearch_def
      Let_def)

theorem loadBooks_error_response_overwrites_books_witness:
  "books (loadBooks storage_down loaded) \<noteq> books loaded"
  using loadBooks_error_response_overwrites_books by simp

subsection \<open>The displayed subset\<close>

text \<open>
  A successful load and a search establish that the displayed books are among the
  fetched ones, and a change of the status selection keeps it, as long as
  \<^verbatim>\<open>books\<close> holds an array.
\<close>

lemma loadBooks_array_within:
  "displayed_within_fetched (loadBooks (Response ok (Some (BookArray bs))) st)"
  by (simp add: displayed_within_fetched_def loadBooks_def)

lemma type_search_within:
  "type_search q st = Inr st' \<Longrightarrow> displayed_within_fetched st'"
  by (auto simp: type_search_def handleSearch_def applyStatusFilter_def Let_def
      displayed_within_fetched_def split: json.splits if_splits)

lemma select_status_within:
  "displayed_within_fetched st \<Longrightarrow> displayed_within_fetched (select_status v st)"
  by (auto simp: select_status_def handleFilter_def applyStatusFilter_def Let_def
      displayed_within_fetched_def split: json.splits)

text \<open>
  Claim C10, evaluated on the code: after a load that received the error response, the
  selection of "read" assigns the two read books to \<^verbatim>\<open>filteredBooks\<close> while
  \<^verbatim>\<open>books\<close> holds the error object, so the displayed books are not elements of
  \<^verbatim>\<open>books\<close>.
\<close>

theorem select_status_after_failed_load_not_within:
  "filteredBooks (select_status ''read'' (loadBooks storage_down loaded))
     = [gatsby, nineteen84]
   \<and> books (select_status ''read'' (loadBooks storage_down loaded))
     = ErrorObject ''connect ECONNREFUSED''
   \<and> \<not> displayed_within_fetched (select_status ''read'' (loadBooks storage_down loaded))"
  by (simp add: select_status_narrows select_status_frame displayed_within_fetched_def
      loaded_eq storage_down_def loadBooks_def json_status_def status_literal_def
      gatsby_def nineteen84_def mockingbird_def)

theorem select_status_after_failed_load_not_within_witness:
  "gatsby \<in> set (filteredBooks (select_status ''read'' (loadBooks storage_down loaded)))
   \<and> books (select_status ''read'' (loadBooks storage_down loaded))
     = ErrorObject ''connect ECONNREFUSED''"
  using select_status_after_failed_load_not_within by simp

subsection \<open>Escaping\<close>

lemma replace_all_concat:
  "replace_all cls f s = concat (map (\<lambda>c. if c \<in> set cls then f c else [c]) s)"
  by (induction s) auto

lemma entity_lookup:
  "(if c \<in> set escape_class then map_get escape_map c else [c]) = html_entity c"
  by (simp add: escape_class_def escape_map_def map_get_def html_entity_def)

lemma escapeHtml_entities: "escapeHtml s = concat (map html_entity s)"
  by (simp add: escapeHtml_def replace_all_concat entity_lookup)

lemma html_entity_safe: "c' \<in> set (html_entity c) \<Longrightarrow> \<not> delimiter c'"
  by (auto simp: html_entity_def delimiter_def split: if_splits)

lemma escapeHtml_safe: "c \<in> set (escapeHtml s) \<Longrightarrow> \<not> delimiter c"
  by (auto simp: escapeHtml_entities dest: html_entity_safe)

lemma digit_safe: "\<not> delimiter (digit n)"
proof -
  have "n mod 10 < length ''0123456789''" by simp
  then have "digit n \<in> set ''0123456789''"
    unfolding digit_def by (rule nth_mem)
  then show ?thesis by (auto simp: delimiter_def)
qed

lemma show_nat_safe: "c \<in> set (show_nat n) \<Longrightarrow> \<not> delimiter c"
proof (induction n arbitrary: c rule: show_nat.induct)
  case (1 n)
  then show ?case
    by (subst (asm) (2) show_nat.simps) (auto simp: digit_safe split: if_splits)
qed

lemma show_int_safe: "c \<in> set (show_int i) \<Longrightarrow> \<not> delimiter c"
  by (auto simp: show_int_def delimiter_def dest: show_nat_safe split: if_splits)

lemma status_text_safe:
  "c \<in> set (show_text (json_status b)) \<Longrightarrow> \<not> delimiter c"
  "c \<in> set (show_text (formatStatus (json_status b))) \<Longrightarrow> \<not> delimiter c"
  by (cases "status b"; (cases "the (status b)")?;
      auto simp: show_text_def json_status_def status_literal_def formatStatus_def
        statusMap_def delimiter_def)+

lemma data_parts_safe:
  assumes "Data s \<in> set (card_parts b)" "c \<in> set s"
  shows "\<not> delimiter c"
  using assms
  by (auto simp: card_parts_def truthy_number_def split: if_splits option.splits
      dest: escapeHtml_safe show_nat_safe show_int_safe status_text_safe)

lemma filter_concat_parts:
  "(\<And>s c. Data s \<in> set ps \<Longrightarrow> c \<in> set s \<Longrightarrow> \<not> delimiter c) \<Longrightarrow>
   filter delimiter (concat (map part_text ps)) =
   filter delimiter (concat (map template_text ps))"
proof (induction ps)
  case Nil
  then show ?case by simp
next
  case (Cons p ps)
  have rest: "filter delimiter (concat (map part_text ps)) =
      filter delimiter (concat (map template_text ps))"
    by (rule Cons.IH) (use Cons.prems in auto)
  show ?case
  proof (cases p)
    case (Markup s)
    then show ?thesis using rest by simp
  next
    case (Data s)
    then have "filter delimiter s = []"
      using Cons.prems [of s] by (auto simp: filter_empty_conv)
    then show ?thesis using rest Data by simp
  qed
qed

text \<open>
  Claim C4: \<^verbatim>\<open>escapeHtml\<close> replaces every occurrence of each of the five characters
  by its entity and copies every other character; the card of every book carries its
  title and author, and its genre, isbn and notes when shown, through
  \<^verbatim>\<open>escapeHtml\<close>; no value written into a card, escaped text or number or status,
  contains a character that opens or closes a tag or an attribute value, so those
  characters of a rendered card are exactly the ones of the template.
\<close>

theorem rendered_text_is_escaped:
  "escapeHtml s = concat (map html_entity s)
   \<and> Data (escapeHtml (title b)) \<in> set (card_parts b)
   \<and> Data (escapeHtml (author b)) \<in> set (card_parts b)
   \<and> (truthy_text (genre b) \<longrightarrow> Data (escapeHtml (text_of (genre b))) \<in> set (card_parts b))
   \<and> (truthy_text (isbn b) \<longrightarrow> Data (escapeHtml (text_of (isbn b))) \<in> set (card_parts b))
   \<and> (truthy_text (notes b) \<longrightarrow> Data (escapeHtml (text_of (notes b))) \<in> set (card_parts b))
   \<and> (\<forall>t c. Data t \<in> set (card_parts b) \<and> c \<in> set t \<longrightarrow> \<not> delimiter c)
   \<and> filter delimiter (renderBook b) = filter delimiter (skeleton b)"
proof (intro conjI allI impI)
  show "escapeHtml s = concat (map html_entity s)"
    by (rule escapeHtml_entities)
  show "Data (escapeHtml (title b)) \<in> set (card_parts b)"
    and "Data (escapeHtml (author b)) \<in> set (card_parts b)"
    by (simp_all add: card_parts_def)
  show "Data (escapeHtml (text_of (genre b))) \<in> set (card_parts b)" if "truthy_text (genre b)"
    using that by (simp add: card_parts_def)
  show "Data (escapeHtml (text_of (isbn b))) \<in> set (card_parts b)" if "truthy_text (isbn b)"
    using that by (simp add: card_parts_def)
  show "Data (escapeHtml (text_of (notes b))) \<in> set (card_parts b)" if "truthy_text (notes b)"
    using that by (simp add: card_parts_def)
  show "\<not> delimiter c" if "Data t \<in> set (card_parts b) \<and> c \<in> set t" for t c
    using that data_parts_safe by blast
  show "filter delimiter (renderBook b) = filter delimiter (skeleton b)"
    unfolding renderBook_def skeleton_def
    by (rule filter_concat_parts) (rule data_parts_safe)
qed

lemma xss_book_rendered:
  \<open>str_includes (renderBook xss_book) ''<h3>&lt;script&gt;alert(1)&lt;/script&gt;</h3>''\<close>
  \<open>\<not> str_includes (renderBook xss_book) ''<script''\<close>
  by code_simp+

theorem rendered_text_is_escaped_witness:
  \<open>escapeHtml (title xss_book) = ''&lt;script&gt;alert(1)&lt;/script&gt;''
   \<and> Data ''&lt;script&gt;alert(1)&lt;/script&gt;'' \<in> set (card_parts xss_book)
   \<and> str_includes (renderBook xss_book) ''<h3>&lt;script&gt;alert(1)&lt;/script&gt;</h3>''
   \<and> \<not> str_includes (renderBook xss_book) ''<script''\<close>
proof -
  have t: \<open>title xss_book = ''<script>alert(1)</script>''\<close>
    by (simp add: xss_book_def)
  from rendered_text_is_escaped [of "title xss_book" xss_book]
  have e: "escapeHtml (title xss_book) = concat (map html_entity (title xss_book))"
    and d: "Data (escapeHtml (title xss_book)) \<in> set (card_parts xss_book)"
    by blast+
  have v: \<open>escapeHtml (title xss_book) = ''&lt;script&gt;alert(1)&lt;/script&gt;''\<close>
    using e unfolding t by (simp add: html_entity_def)
  from d v have \<open>Data ''&lt;script&gt;alert(1)&lt;/script&gt;'' \<in> set (card_parts xss_book)\<close>
    by simp
  with v xss_book_rendered show ?thesis by blast
qed

end
